theory Spec2Isabelle
  imports Complex_Main "HOL-Library.Word"
begin

section \<open>The resource server: POST /request-mint (vrf-resource-server.ts)\<close>

subsection \<open>JavaScript values\<close>

text \<open>
  The values the handler reads out of the decoded header and writes into its response
  bodies. \<open>JUndefined\<close> is what a read of an absent property gives. An object is the
  list of its own properties.
\<close>

datatype jsval =
    JUndefined
  | JNull
  | JBool bool
  | JNum rat
  | JStr string
  | JArr "jsval list"
  | JObj "(string \<times> jsval) list"

text \<open>A thrown value, with the \<open>message\<close> the handler reads from it.\<close>

datatype exn = Exn (message: string)

text \<open>
  \<open>v.k\<close> on a value that is neither \<open>null\<close> nor \<open>undefined\<close>. Only an object parsed from
  JSON has own properties named \<open>scheme\<close>, \<open>networkId\<close>, \<open>payload\<close>, \<open>authorization\<close> or
  \<open>from\<close>; on a boolean, number, string or array these reads give \<open>undefined\<close>.
\<close>

fun member_of :: "jsval \<Rightarrow> string \<Rightarrow> jsval" where
  "member_of (JObj kvs) k = (case map_of kvs k of None \<Rightarrow> JUndefined | Some v \<Rightarrow> v)"
| "member_of v k = JUndefined"

text \<open>\<open>v.k\<close>: a TypeError on \<open>null\<close> and \<open>undefined\<close>.\<close>

definition type_error :: "string \<Rightarrow> string \<Rightarrow> exn" where
  "type_error v k =
     Exn (''Cannot read properties of '' @ v @ '' (reading '' @ [CHR 0x27] @ k @ [CHR 0x27] @ '')'')"

fun get_prop :: "jsval \<Rightarrow> string \<Rightarrow> exn + jsval" where
  "get_prop JUndefined k = Inl (type_error ''undefined'' k)"
| "get_prop JNull k = Inl (type_error ''null'' k)"
| "get_prop v k = Inr (member_of v k)"

text \<open>\<open>v?.k\<close>: \<open>undefined\<close> on \<open>null\<close> and \<open>undefined\<close>.\<close>

fun opt_chain :: "jsval \<Rightarrow> string \<Rightarrow> jsval" where
  "opt_chain JUndefined k = JUndefined"
| "opt_chain JNull k = JUndefined"
| "opt_chain v k = member_of v k"

text \<open>The truthiness that \<open>!v\<close> negates.\<close>

fun truthy :: "jsval \<Rightarrow> bool" where
  "truthy JUndefined = False"
| "truthy JNull = False"
| "truthy (JBool b) = b"
| "truthy (JNum n) = (n \<noteq> 0)"
| "truthy (JStr s) = (s \<noteq> [])"
| "truthy (JArr xs) = True"
| "truthy (JObj kvs) = True"

subsection \<open>Constants and types of the server\<close>

definition PORT :: string where "PORT = ''4023''"
definition FACILITATOR_URL :: string where "FACILITATOR_URL = ''http://localhost:4020''"
definition NFT_CONTRACT_ADDRESS :: string where
  "NFT_CONTRACT_ADDRESS = ''0xcD8841f9a8Dbc483386fD80ab6E9FD9656Da39A2''"
definition USDC_CONTRACT_ADDRESS :: string where
  "USDC_CONTRACT_ADDRESS = ''0x036CbD53842c5426634e7929541eC2318f3dCF7e''"
definition REQUIRED_USDC_PAYMENT :: string where "REQUIRED_USDC_PAYMENT = ''50000''"
definition PAYMENT_RECIPIENT_ADDRESS :: string where
  "PAYMENT_RECIPIENT_ADDRESS = ''0x87002564F1C7b8F51e96CA7D545e43402BF0b4Ab''"

text \<open>\<open>baseSepolia.id.toString()\<close>; the chain id of Base Sepolia in viem/chains is 84532.\<close>

definition NETWORK_ID :: string where "NETWORK_ID = ''84532''"
definition SCHEME :: string where "SCHEME = ''exact''"

text \<open>The object sent in 402 responses and to the facilitator.\<close>

definition paymentDetailsRequired :: jsval where
  "paymentDetailsRequired = JObj
     [(''scheme'', JStr SCHEME),
      (''networkId'', JStr NETWORK_ID),
      (''maxAmountRequired'', JStr REQUIRED_USDC_PAYMENT),
      (''resource'', JStr (''http://localhost:'' @ PORT @ ''/request-mint'')),
      (''description'', JStr ''Request to mint a VRF NFT''),
      (''mimeType'', JStr ''application/json''),
      (''payToAddress'', JStr PAYMENT_RECIPIENT_ADDRESS),
      (''requiredDeadlineSeconds'', JNum 60),
      (''usdcAddress'', JStr USDC_CONTRACT_ADDRESS),
      (''outputSchema'', JNull),
      (''extra'', JNull)]"

text \<open>
  The data of the facilitator's answers, with the types the handler declares for them.
  \<open>None\<close> in a field typed \<open>string | null\<close> is \<open>null\<close>.
\<close>

record verification =
  isValid :: bool
  invalidReason :: "string option"

record settlement =
  success :: bool
  error :: "string option"
  txHash :: "string option"

subsection \<open>The world outside the handler\<close>

text \<open>
  Everything the handler awaits or calls in a library is a parameter:
  \<^item> \<open>decodeHeader h\<close> is \<open>JSON.parse(Buffer.from(h, 'base64').toString('utf-8'))\<close>, the parsed
    value or the exception thrown;
  \<^item> \<open>facilitatorVerify h\<close> is \<open>axios.post(FACILITATOR_URL/verify, {payload: h, details})\<close>: the
    exception of a transport error or non-2xx answer, or the answer's \<open>data\<close> (\<open>None\<close> when
    the data is \<open>null\<close> or \<open>undefined\<close>, which \<open>verificationResult?.isValid\<close> allows for);
  \<^item> \<open>writeContract r\<close> is the \<open>requestNFT\<close> transaction sent for recipient \<open>r\<close>: the exception
    or the transaction hash;
  \<^item> \<open>facilitatorSettle h\<close> is the same for \<open>/settle\<close>.
\<close>

record env =
  decodeHeader :: "string \<Rightarrow> exn + jsval"
  facilitatorVerify :: "string \<Rightarrow> exn + verification option"
  writeContract :: "jsval \<Rightarrow> exn + string"
  facilitatorSettle :: "string \<Rightarrow> exn + settlement option"

text \<open>
  What one request does: the calls it makes outside, in order (a post to the facilitator
  with the \<open>payload\<close> and \<open>details\<close> of its body, the mint transaction with its recipient
  argument); the lines it logs (\<open>console.log\<close> or \<open>console.error\<close>, with the text of the
  first argument up to the first value in it that is not a string); and the response.
\<close>

datatype call =
    PostVerify string jsval
  | WriteContract jsval
  | PostSettle string jsval

datatype log_entry = ConsoleLog string | ConsoleError string

record outcome =
  status :: nat
  body :: jsval
  calls :: "call list"
  logs :: "log_entry list"

subsection \<open>The handler\<close>

text \<open>
  Step 2, the body of the \<open>try\<close>: decode, parse, and the basic validation. A \<open>null\<close>
  parsed value throws at the first property read, \<open>paymentHeader.scheme\<close>; once that read
  has returned, the value is not \<open>null\<close> and the reads of \<open>networkId\<close> and \<open>payload\<close> return.
\<close>

definition decode_payment_header :: "env \<Rightarrow> string \<Rightarrow> exn + jsval" where
  "decode_payment_header e paymentHeaderBase64 =
     (case decodeHeader e paymentHeaderBase64 of
        Inl err \<Rightarrow> Inl err
      | Inr paymentHeader \<Rightarrow>
          (case get_prop paymentHeader ''scheme'' of
             Inl err \<Rightarrow> Inl err
           | Inr scheme \<Rightarrow>
               if scheme \<noteq> JStr SCHEME
                  \<or> member_of paymentHeader ''networkId'' \<noteq> JStr NETWORK_ID
                  \<or> \<not> truthy (opt_chain (opt_chain (member_of paymentHeader ''payload'')
                                  ''authorization'') ''from'')
               then Inl (Exn ''Invalid or incomplete payment header content.'')
               else Inr paymentHeader))"

text \<open>
  \<open>paymentHeader.payload.authorization.from\<close> of step 4, read outside every \<open>try\<close>.
\<close>

definition recipient_of :: "jsval \<Rightarrow> exn + jsval" where
  "recipient_of paymentHeader =
     (case get_prop paymentHeader ''payload'' of
        Inl err \<Rightarrow> Inl err
      | Inr payload \<Rightarrow>
          (case get_prop payload ''authorization'' of
             Inl err \<Rightarrow> Inl err
           | Inr authorization \<Rightarrow> get_prop authorization ''from''))"

text \<open>\<open>verificationResult?.isValid\<close> and \<open>settlementResult?.success\<close>.\<close>

definition is_valid :: "verification option \<Rightarrow> bool" where
  "is_valid verificationResult =
     (case verificationResult of None \<Rightarrow> False | Some v \<Rightarrow> isValid v)"

definition is_success :: "settlement option \<Rightarrow> bool" where
  "is_success settlementResult =
     (case settlementResult of None \<Rightarrow> False | Some r \<Rightarrow> success r)"

text \<open>\<open>verificationResult?.invalidReason || 'Unknown'\<close>.\<close>

definition invalid_reason_or_unknown :: "verification option \<Rightarrow> string" where
  "invalid_reason_or_unknown verificationResult =
     (case verificationResult of
        None \<Rightarrow> ''Unknown''
      | Some v \<Rightarrow>
          (case invalidReason v of
             None \<Rightarrow> ''Unknown''
           | Some r \<Rightarrow> if r = [] then ''Unknown'' else r))"

text \<open>
  Step 5 and 6: settle, log what comes back, respond 200. \<open>settlementResult\<close> is the local
  variable of the handler, with its initial value; the response does not read it.
\<close>

definition settle_and_respond :: "env \<Rightarrow> string \<Rightarrow> string \<Rightarrow> call list \<Rightarrow> log_entry list \<Rightarrow> outcome" where
  "settle_and_respond e paymentHeaderBase64 mintTxHash cs ls =
     (let settlementResult0 =
            Some \<lparr>success = False, error = Some ''Settlement not attempted'', txHash = None\<rparr>;
          cs1 = cs @ [PostSettle paymentHeaderBase64 paymentDetailsRequired];
          ls1 = ls @ [ConsoleLog (''INFO ResourceServer: Settling payment with Facilitator at ''
                              @ FACILITATOR_URL @ ''...'')];
          (settlementResult, ls2) =
            (case facilitatorSettle e paymentHeaderBase64 of
               Inl err \<Rightarrow>
                 (settlementResult0,
                  ls1 @ [ConsoleError ''ERROR ResourceServer: Error calling facilitator /settle:''])
             | Inr data \<Rightarrow>
                 (data,
                  ls1 @ [ConsoleLog ''INFO ResourceServer: Facilitator /settle response:'']
                      @ (if \<not> is_success data
                         then [ConsoleError ''WARN ResourceServer: Facilitator settlement failed:'']
                         else [])))
      in \<lparr>status = 200,
          body = JObj [(''message'', JStr ''NFT mint request initiated successfully.''),
                       (''nftMintTxHash'', JStr mintTxHash)],
          calls = cs1,
          logs = ls2 @ [ConsoleLog ''INFO ResourceServer: Responding 200 OK to client.'']\<rparr>)"

text \<open>
  Step 4: read the recipient and send the mint transaction. An exception of the read is
  caught by nobody in the handler; Hono's default error handler answers 500 with the text
  \<open>Internal Server Error\<close>.
\<close>

definition mint_and_settle :: "env \<Rightarrow> string \<Rightarrow> jsval \<Rightarrow> call list \<Rightarrow> log_entry list \<Rightarrow> outcome" where
  "mint_and_settle e paymentHeaderBase64 paymentHeader cs ls =
     (case recipient_of paymentHeader of
        Inl err \<Rightarrow>
          \<lparr>status = 500, body = JStr ''Internal Server Error'', calls = cs, logs = ls\<rparr>
      | Inr recipientAddress \<Rightarrow>
          (let cs1 = cs @ [WriteContract recipientAddress];
               ls1 = ls @ [ConsoleLog ''INFO ResourceServer: Initiating NFT mint for '']
           in case writeContract e recipientAddress of
                Inl err \<Rightarrow>
                  \<lparr>status = 500,
                   body = JObj [(''error'', JStr ''Failed to initiate NFT minting.''),
                                (''details'', JStr (message err))],
                   calls = cs1,
                   logs = ls1 @ [ConsoleError ''ERROR ResourceServer: Error sending NFT mint transaction:'']\<rparr>
              | Inr mintTxHash \<Rightarrow>
                  settle_and_respond e paymentHeaderBase64 mintTxHash cs1
                    (ls1 @ [ConsoleLog (''INFO ResourceServer: NFT Mint transaction sent: '' @ mintTxHash)])))"

text \<open>Step 3: verify with the facilitator.\<close>

definition verify_then_mint :: "env \<Rightarrow> string \<Rightarrow> jsval \<Rightarrow> log_entry list \<Rightarrow> outcome" where
  "verify_then_mint e paymentHeaderBase64 paymentHeader ls =
     (let cs1 = [PostVerify paymentHeaderBase64 paymentDetailsRequired];
          ls1 = ls @ [ConsoleLog (''INFO ResourceServer: Verifying payment with Facilitator at ''
                              @ FACILITATOR_URL @ ''...'')]
      in case facilitatorVerify e paymentHeaderBase64 of
           Inl err \<Rightarrow>
             \<lparr>status = 500,
              body = JObj [(''error'', JStr ''Facilitator verification call failed.'')],
              calls = cs1,
              logs = ls1 @ [ConsoleError ''ERROR ResourceServer: Error calling facilitator /verify:'']\<rparr>
         | Inr verificationResult \<Rightarrow>
             (let ls2 = ls1 @ [ConsoleLog ''INFO ResourceServer: Facilitator /verify response:'']
              in if \<not> is_valid verificationResult
                 then \<lparr>status = 402,
                       body = JObj [(''paymentDetails'', paymentDetailsRequired),
                                    (''error'', JStr ''Payment verification failed.''),
                                    (''details'', JStr (invalid_reason_or_unknown verificationResult))],
                       calls = cs1,
                       logs = ls2 @ [ConsoleLog ''INFO ResourceServer: Payment verification failed. Responding 402.'']\<rparr>
                 else mint_and_settle e paymentHeaderBase64 paymentHeader cs1 ls2))"

text \<open>
  The handler of \<open>app.post('/request-mint')\<close>. Its argument is \<open>c.req.header('X-PAYMENT')\<close>:
  \<open>None\<close> is \<open>undefined\<close>. \<open>!paymentHeaderBase64\<close> holds of \<open>undefined\<close> and of the empty
  string.
\<close>

definition request_mint :: "env \<Rightarrow> string option \<Rightarrow> outcome" where
  "request_mint e header =
     (let ls = [ConsoleLog ''INFO ResourceServer: Received POST /request-mint''];
          payment_required =
            \<lparr>status = 402,
             body = JObj [(''paymentDetails'', paymentDetailsRequired),
                          (''error'', JStr ''Payment required'')],
             calls = [],
             logs = ls @ [ConsoleLog ''INFO ResourceServer: No X-PAYMENT header found. Responding 402.'']\<rparr>
      in case header of
           None \<Rightarrow> payment_required
         | Some paymentHeaderBase64 \<Rightarrow>
             if paymentHeaderBase64 = [] then payment_required
             else
               (case decode_payment_header e paymentHeaderBase64 of
                  Inl err \<Rightarrow>
                    \<lparr>status = 400,
                     body = JObj [(''error'', JStr ''Invalid payment header format.''),
                                  (''details'', JStr (message err))],
                     calls = [],
                     logs = ls @ [ConsoleError ''ERROR ResourceServer: Error decoding/parsing X-PAYMENT header:'']\<rparr>
                | Inr paymentHeader \<Rightarrow>
                    verify_then_mint e paymentHeaderBase64 paymentHeader ls))"

subsection \<open>Envelopes and malformed headers\<close>

text \<open>
  The envelope, as the type \<open>XPaymentHeader\<close> of the server declares it: a number
  \<open>x402Version\<close>, strings \<open>scheme\<close>, \<open>networkId\<close> and \<open>resource\<close>, and a \<open>payload\<close> with a
  \<open>signature\<close> and an \<open>authorization\<close> of \<open>from\<close>, \<open>to\<close>, \<open>value\<close>, \<open>validAfter\<close>,
  \<open>validBefore\<close>, \<open>nonce\<close> and \<open>version\<close>. A \<open>Hex\<close> is a string that starts with \<open>0x\<close>. The
  source names no value for \<open>x402Version\<close>; every number counts.
\<close>

fun is_number :: "jsval \<Rightarrow> bool" where
  "is_number (JNum n) = True"
| "is_number v = False"

fun is_string :: "jsval \<Rightarrow> bool" where
  "is_string (JStr s) = True"
| "is_string v = False"

fun is_hex :: "jsval \<Rightarrow> bool" where
  "is_hex (JStr s) = (take 2 s = ''0x'')"
| "is_hex v = False"

definition valid_envelope :: "jsval \<Rightarrow> bool" where
  "valid_envelope v =
     (let payload = member_of v ''payload'';
          authorization = member_of payload ''authorization''
      in is_number (member_of v ''x402Version'')
         \<and> is_string (member_of v ''scheme'')
         \<and> is_string (member_of v ''networkId'')
         \<and> is_hex (member_of payload ''signature'')
         \<and> is_hex (member_of authorization ''from'')
         \<and> is_hex (member_of authorization ''to'')
         \<and> is_string (member_of authorization ''value'')
         \<and> is_string (member_of authorization ''validAfter'')
         \<and> is_string (member_of authorization ''validBefore'')
         \<and> is_hex (member_of authorization ''nonce'')
         \<and> is_string (member_of authorization ''version'')
         \<and> is_string (member_of v ''resource''))"



section \<open>The contract: VRFNFT.sol\<close>

subsection \<open>Types, errors and state\<close>

type_synonym uint256 = "256 word"
type_synonym address = "160 word"

text \<open>
  A call ends by returning, by a failed \<open>require\<close> (a revert with its reason) or by a
  panic of checked arithmetic or indexing (with its code).
\<close>

datatype sol_error = Revert string | Panic nat

record RequestStatus =
  fulfilled :: bool
  exists :: bool
  randomWords :: "uint256 list"

datatype event =
    RequestSent uint256 address uint256
  | RequestFulfilled uint256 "uint256 list"
  | NFTMinted uint256 address uint256 uint256

text \<open>
  The storage of the contract. A \<open>mapping\<close> is a total function, every key at the zero
  value until written. The state of the inherited ERC721 and ERC721URIStorage contracts is
  the component \<open>erc721\<close>, of a type the model leaves open. \<open>events\<close> is the log of the
  events that this contract emits itself.
\<close>

record 'erc VRFNFT =
  keyHash :: "256 word"
  callbackGasLimit :: "32 word"
  requestConfirmations :: "16 word"
  tokenIdCounter :: uint256
  s_tokenIdToCharacterIndex :: "uint256 \<Rightarrow> uint256"
  s_requests :: "uint256 \<Rightarrow> RequestStatus"
  s_requestIdToRecipient :: "uint256 \<Rightarrow> address"
  erc721 :: 'erc
  events :: "event list"

definition NUM_WORDS :: "32 word" where "NUM_WORDS = 1"

text \<open>\<open>0.0001 ether\<close>, in wei.\<close>

definition MINT_PRICE :: uint256 where "MINT_PRICE = 100000000000000"

text \<open>The two storage arrays are initialised at deployment and written nowhere.\<close>

definition s_characterImages :: "string list" where
  "s_characterImages =
     [''https://ipfs.io/ipfs/QmTgqnhFBMkfT9s8PHKcdXBn1f5bG3Q5hmBaR4U6hoTvb1?filename=Chainlink_Elf.png'',
      ''https://ipfs.io/ipfs/QmZGQA92ri1jfzSu61JRaNQXYg1bLuM7p8YT83DzFA2KLH?filename=Chainlink_Knight.png'',
      ''https://ipfs.io/ipfs/QmW1toapYs7M29rzLXTENn3pbvwe8ioikX1PwzACzjfdHP?filename=Chainlink_Orc.png'',
      ''https://ipfs.io/ipfs/QmPMwQtFpEdKrUjpQJfoTeZS1aVSeuJT6Mof7uV29AcUpF?filename=Chainlink_Witch.png'']"

definition s_characterNames :: "string list" where
  "s_characterNames =
     [''Chainlink Elf'', ''Chainlink Knight'', ''Chainlink Orc'', ''Chainlink Witch'']"

text \<open>
  What the contract calls in its libraries, its base contracts and the VRF wrapper is a
  parameter:
  \<^item> \<open>safeMint\<close> and \<open>setTokenURI\<close> are \<open>_safeMint\<close> and \<open>_setTokenURI\<close> of the inherited
    token contracts, acting on the state component \<open>erc721\<close> only (a receiver hook that
    calls back into this contract is not modelled);
  \<^item> \<open>toString\<close> is \<open>Strings.toString\<close>, \<open>base64\<close> is \<open>Base64.encode\<close>;
  \<^item> \<open>calculateRequestPriceNative\<close> is the wrapper's price for a gas limit and a number
    of words; \<open>requestRandomWordsInNative\<close> is the request identifier the wrapper returns
    for a request, or its failure.
\<close>

record 'erc chain =
  safeMint :: "'erc \<Rightarrow> address \<Rightarrow> uint256 \<Rightarrow> sol_error + 'erc"
  setTokenURI :: "'erc \<Rightarrow> uint256 \<Rightarrow> string \<Rightarrow> sol_error + 'erc"
  toString :: "uint256 \<Rightarrow> string"
  base64 :: "string \<Rightarrow> string"
  calculateRequestPriceNative :: "32 word \<Rightarrow> 32 word \<Rightarrow> uint256"
  requestRandomWordsInNative :: "32 word \<Rightarrow> 16 word \<Rightarrow> 32 word \<Rightarrow> sol_error + uint256"

text \<open>
  A reverted or panicked call leaves the storage and the event log as they were before it.
\<close>

definition state_after :: "sol_error + 'erc VRFNFT \<Rightarrow> 'erc VRFNFT \<Rightarrow> 'erc VRFNFT" where
  "state_after r s = (case r of Inl err \<Rightarrow> s | Inr s' \<Rightarrow> s')"

subsection \<open>Deployment and requestNFT\<close>

definition constructor :: "'erc \<Rightarrow> 256 word \<Rightarrow> 32 word \<Rightarrow> 16 word \<Rightarrow> 'erc VRFNFT" where
  "constructor erc0 keyHash0 callbackGasLimit0 requestConfirmations0 =
     \<lparr>keyHash = keyHash0,
      callbackGasLimit = callbackGasLimit0,
      requestConfirmations = requestConfirmations0,
      tokenIdCounter = 0,
      s_tokenIdToCharacterIndex = (\<lambda>tokenId. 0),
      s_requests = (\<lambda>requestId. \<lparr>fulfilled = False, exists = False, randomWords = []\<rparr>),
      s_requestIdToRecipient = (\<lambda>requestId. 0),
      erc721 = erc0,
      events = []\<rparr>"

text \<open>
  \<open>requestNFT(_recipient)\<close> called by \<open>msg_sender\<close> with \<open>msg_value\<close>. The sum
  \<open>vrfFee + _MINT_PRICE\<close> is checked: an overflow panics with code 0x11.
\<close>

definition requestNFT ::
  "'erc chain \<Rightarrow> 'erc VRFNFT \<Rightarrow> address \<Rightarrow> uint256 \<Rightarrow> address \<Rightarrow> sol_error + (uint256 \<times> 'erc VRFNFT)" where
  "requestNFT c s msg_sender msg_value recipient =
     (if recipient = 0 then Inl (Revert ''Recipient cannot be zero address'')
      else
        let vrfFee = calculateRequestPriceNative c (callbackGasLimit s) NUM_WORDS
        in if unat vrfFee + unat MINT_PRICE \<ge> 2 ^ 256 then Inl (Panic 0x11)
           else if \<not> (msg_value \<ge> vrfFee + MINT_PRICE)
           then Inl (Revert ''Insufficient payment (VRF fee + mint price)'')
           else
             (case requestRandomWordsInNative c (callbackGasLimit s) (requestConfirmations s) NUM_WORDS of
                Inl err \<Rightarrow> Inl err
              | Inr requestId \<Rightarrow>
                  Inr (requestId,
                       s\<lparr>s_requests := (s_requests s)
                            (requestId := \<lparr>fulfilled = False, exists = True, randomWords = []\<rparr>),
                         s_requestIdToRecipient := (s_requestIdToRecipient s)(requestId := recipient),
                         events := events s @ [RequestSent requestId msg_sender vrfFee]\<rparr>)))"

subsection \<open>fulfillRandomWords\<close>

definition DQ :: string where "DQ = [CHR 0x22]"

text \<open>The \<open>abi.encodePacked\<close> of the metadata, with \<open>DQ\<close> for the double quote.\<close>

definition token_json :: "'erc chain \<Rightarrow> string \<Rightarrow> string \<Rightarrow> uint256 \<Rightarrow> string" where
  "token_json c characterName characterImageURI tokenId =
     ''{'' @
     DQ @ ''name'' @ DQ @ '': '' @ DQ @ characterName @ '' #'' @ toString c tokenId @ DQ @ '','' @
     DQ @ ''description'' @ DQ @ '': '' @ DQ @ ''A randomly generated VRFNFT character.'' @ DQ @ '','' @
     DQ @ ''image'' @ DQ @ '': '' @ DQ @ characterImageURI @ DQ @ '','' @
     DQ @ ''attributes'' @ DQ @ '': ['' @
     ''{'' @
     DQ @ ''trait_type'' @ DQ @ '': '' @ DQ @ ''Character'' @ DQ @ '', '' @
     DQ @ ''value'' @ DQ @ '': '' @ DQ @ characterName @ DQ @
     ''}'' @
     '']'' @
     ''}''"

text \<open>
  The callback. \<open>Counters.increment\<close> adds one unchecked. Reading an array beyond its
  length panics with code 0x32.
\<close>

definition fulfillRandomWords ::
  "'erc chain \<Rightarrow> 'erc VRFNFT \<Rightarrow> uint256 \<Rightarrow> uint256 list \<Rightarrow> sol_error + 'erc VRFNFT" where
  "fulfillRandomWords c s requestId randomWords0 =
     (if \<not> exists (s_requests s requestId) then Inl (Revert ''Request not found'')
      else if \<not> (\<not> fulfilled (s_requests s requestId)) then Inl (Revert ''Request already fulfilled'')
      else if \<not> (length randomWords0 > 0) then Inl (Revert ''No random words received'')
      else
        let request = (s_requests s requestId)\<lparr>fulfilled := True, randomWords := randomWords0\<rparr>;
            s1 = s\<lparr>s_requests := (s_requests s)(requestId := request)\<rparr>;
            owner = s_requestIdToRecipient s1 requestId
        in if \<not> (owner \<noteq> 0) then Inl (Revert ''Recipient address cannot be zero'')
           else
             let characterIndex = (randomWords0 ! 0) mod of_nat (length s_characterNames);
                 tokenId = tokenIdCounter s1;
                 s2 = s1\<lparr>tokenIdCounter := tokenIdCounter s1 + 1\<rparr>;
                 s3 = s2\<lparr>s_tokenIdToCharacterIndex := (s_tokenIdToCharacterIndex s2)(tokenId := characterIndex)\<rparr>
             in case safeMint c (erc721 s3) owner tokenId of
                  Inl err \<Rightarrow> Inl err
                | Inr erc1 \<Rightarrow>
                    if \<not> (unat characterIndex < length s_characterNames)
                       \<or> \<not> (unat characterIndex < length s_characterImages)
                    then Inl (Panic 0x32)
                    else
                      let characterName = s_characterNames ! unat characterIndex;
                          characterImageURI = s_characterImages ! unat characterIndex;
                          json = base64 c (token_json c characterName characterImageURI tokenId);
                          finalTokenURI = ''data:application/json;base64,'' @ json
                      in (case setTokenURI c erc1 tokenId finalTokenURI of
                            Inl err \<Rightarrow> Inl err
                          | Inr erc2 \<Rightarrow>
                              Inr (s3\<lparr>erc721 := erc2,
                                     s_requestIdToRecipient := (s_requestIdToRecipient s3)(requestId := 0),
                                     events := events s3 @
                                       [RequestFulfilled requestId randomWords0,
                                        NFTMinted requestId owner tokenId characterIndex]\<rparr>)))"

section \<open>Example worlds and inputs\<close>

text \<open>
  The payer of the examples, a 20-byte address in lower case, and a 65-byte signature.
\<close>

definition example_payer :: string where
  "example_payer = ''0x70997970c51812dc3a010c7d01b50e0d17dc79c8''"

definition example_signature :: string where
  "example_signature =
     ''0x2f8a5c1e9b3d47a60c5e8f1b2d3a4c5e6f708192a3b4c5d6e7f8091a2b3c4d5e1a2b3c'' @
     ''4d5e6f708192a3b4c5d6e7f8091a2b3c4d5e6f708192a3b4c5d6e7f8091b''"

text \<open>
  An envelope for the terms of this server, and its header text: the base64 encoding of
  its JSON text without white space, the keys in the order below.
\<close>

definition example_header :: jsval where
  "example_header = JObj
     [(''x402Version'', JNum 1),
      (''scheme'', JStr ''exact''),
      (''networkId'', JStr ''84532''),
      (''payload'', JObj
         [(''signature'', JStr example_signature),
          (''authorization'', JObj
             [(''from'', JStr example_payer),
              (''to'', JStr ''0x87002564F1C7b8F51e96CA7D545e43402BF0b4Ab''),
              (''value'', JStr ''50000''),
              (''validAfter'', JStr ''1793703600''),
              (''validBefore'', JStr ''1793703660''),
              (''nonce'', JStr ''0xf3746613c2d920b5fdabc0856f2aeb2d4f88ee6037b8cc5d04a71a4462f13480''),
              (''version'', JStr ''2'')])]),
      (''resource'', JStr ''http://localhost:4023/request-mint'')]"

definition example_header_base64 :: string where
  "example_header_base64 =
     ''eyJ4NDAyVmVyc2lvbiI6MSwic2NoZW1lIjoiZXhhY3QiLCJuZXR3b3JrSWQiOiI4NDUzMiIs'' @
     ''InBheWxvYWQiOnsic2lnbmF0dXJlIjoiMHgyZjhhNWMxZTliM2Q0N2E2MGM1ZThmMWIyZDNh'' @
     ''NGM1ZTZmNzA4MTkyYTNiNGM1ZDZlN2Y4MDkxYTJiM2M0ZDVlMWEyYjNjNGQ1ZTZmNzA4MTky'' @
     ''YTNiNGM1ZDZlN2Y4MDkxYTJiM2M0ZDVlNmY3MDgxOTJhM2I0YzVkNmU3ZjgwOTFiIiwiYXV0'' @
     ''aG9yaXphdGlvbiI6eyJmcm9tIjoiMHg3MDk5Nzk3MGM1MTgxMmRjM2EwMTBjN2QwMWI1MGUw'' @
     ''ZDE3ZGM3OWM4IiwidG8iOiIweDg3MDAyNTY0RjFDN2I4RjUxZTk2Q0E3RDU0NWU0MzQwMkJG'' @
     ''MGI0QWIiLCJ2YWx1ZSI6IjUwMDAwIiwidmFsaWRBZnRlciI6IjE3OTM3MDM2MDAiLCJ2YWxp'' @
     ''ZEJlZm9yZSI6IjE3OTM3MDM2NjAiLCJub25jZSI6IjB4ZjM3NDY2MTNjMmQ5MjBiNWZkYWJj'' @
     ''MDg1NmYyYWViMmQ0Zjg4ZWU2MDM3YjhjYzVkMDRhNzFhNDQ2MmYxMzQ4MCIsInZlcnNpb24i'' @
     ''OiIyIn19LCJyZXNvdXJjZSI6Imh0dHA6Ly9sb2NhbGhvc3Q6NDAyMy9yZXF1ZXN0LW1pbnQi'' @
     ''fQ==''"

text \<open>The same envelope for the scheme \<open>upto\<close>, and its header text.\<close>

definition other_scheme_header :: jsval where
  "other_scheme_header = JObj
     [(''x402Version'', JNum 1),
      (''scheme'', JStr ''upto''),
      (''networkId'', JStr ''84532''),
      (''payload'', JObj
         [(''signature'', JStr example_signature),
          (''authorization'', JObj
             [(''from'', JStr example_payer),
              (''to'', JStr ''0x87002564F1C7b8F51e96CA7D545e43402BF0b4Ab''),
              (''value'', JStr ''50000''),
              (''validAfter'', JStr ''1793703600''),
              (''validBefore'', JStr ''1793703660''),
              (''nonce'', JStr ''0xf3746613c2d920b5fdabc0856f2aeb2d4f88ee6037b8cc5d04a71a4462f13480''),
              (''version'', JStr ''2'')])]),
      (''resource'', JStr ''http://localhost:4023/request-mint'')]"

definition other_scheme_base64 :: string where
  "other_scheme_base64 =
     ''eyJ4NDAyVmVyc2lvbiI6MSwic2NoZW1lIjoidXB0byIsIm5ldHdvcmtJZCI6Ijg0NTMyIiwi'' @
     ''cGF5bG9hZCI6eyJzaWduYXR1cmUiOiIweDJmOGE1YzFlOWIzZDQ3YTYwYzVlOGYxYjJkM2E0'' @
     ''YzVlNmY3MDgxOTJhM2I0YzVkNmU3ZjgwOTFhMmIzYzRkNWUxYTJiM2M0ZDVlNmY3MDgxOTJh'' @
     ''M2I0YzVkNmU3ZjgwOTFhMmIzYzRkNWU2ZjcwODE5MmEzYjRjNWQ2ZTdmODA5MWIiLCJhdXRo'' @
     ''b3JpemF0aW9uIjp7ImZyb20iOiIweDcwOTk3OTcwYzUxODEyZGMzYTAxMGM3ZDAxYjUwZTBk'' @
     ''MTdkYzc5YzgiLCJ0byI6IjB4ODcwMDI1NjRGMUM3YjhGNTFlOTZDQTdENTQ1ZTQzNDAyQkYw'' @
     ''YjRBYiIsInZhbHVlIjoiNTAwMDAiLCJ2YWxpZEFmdGVyIjoiMTc5MzcwMzYwMCIsInZhbGlk'' @
     ''QmVmb3JlIjoiMTc5MzcwMzY2MCIsIm5vbmNlIjoiMHhmMzc0NjYxM2MyZDkyMGI1ZmRhYmMw'' @
     ''ODU2ZjJhZWIyZDRmODhlZTYwMzdiOGNjNWQwNGE3MWE0NDYyZjEzNDgwIiwidmVyc2lvbiI6'' @
     ''IjIifX0sInJlc291cmNlIjoiaHR0cDovL2xvY2FsaG9zdDo0MDIzL3JlcXVlc3QtbWludCJ9''"

text \<open>
  An incomplete envelope, with no version, no signature and no resource, and no more of
  the authorization than the payer; and its header text.
\<close>

definition unsigned_envelope :: jsval where
  "unsigned_envelope = JObj
     [(''scheme'', JStr ''exact''),
      (''networkId'', JStr ''84532''),
      (''payload'', JObj [(''authorization'', JObj [(''from'', JStr example_payer)])])]"

definition unsigned_envelope_base64 :: string where
  "unsigned_envelope_base64 =
     ''eyJzY2hlbWUiOiJleGFjdCIsIm5ldHdvcmtJZCI6Ijg0NTMyIiwicGF5bG9hZCI6eyJhdXRo'' @
     ''b3JpemF0aW9uIjp7ImZyb20iOiIweDcwOTk3OTcwYzUxODEyZGMzYTAxMGM3ZDAxYjUwZTBk'' @
     ''MTdkYzc5YzgifX19''"

text \<open>The base64 encoding of the text \<open>not json\<close>.\<close>

definition not_json_base64 :: string where
  "not_json_base64 = ''bm90IGpzb24=''"

text \<open>The hashes of the mint transaction and of the settlement transaction.\<close>

definition example_mint_tx :: string where
  "example_mint_tx = ''0x9d1c7a4be2f05836c1a7e94d20b3f6587ac41e09d3b2f7c6a85e10f94b2d3c61''"

definition example_settle_tx :: string where
  "example_settle_tx = ''0x4e8b02d7f1a35c9660d2b7e8430c1fa59b6d7e2081c4f3a5962e0b7d18c4a3f2''"

text \<open>
  A world. Its decoder gives for the four header texts above and for the empty text what
  \<open>JSON.parse\<close> of the base64 decoding gives (the three values, and a syntax error for
  \<open>not json\<close> and for the empty text); the examples ask it nothing else. The facilitator
  verifies and settles with success. The chain takes the mint for the payer and, as viem
  does for what is not an address, refuses every other recipient.
\<close>

definition example_env :: env where
  "example_env =
     \<lparr>decodeHeader =
        (\<lambda>h. if h = example_header_base64 then Inr example_header
             else if h = other_scheme_base64 then Inr other_scheme_header
             else if h = unsigned_envelope_base64 then Inr unsigned_envelope
             else if h = not_json_base64 then Inl (Exn ''Unexpected token o in JSON at position 1'')
             else Inl (Exn ''Unexpected end of JSON input'')),
      facilitatorVerify = (\<lambda>h. Inr (Some \<lparr>isValid = True, invalidReason = None\<rparr>)),
      writeContract =
        (\<lambda>r. if r = JStr example_payer then Inr example_mint_tx
             else Inl (Exn ''Address is invalid.'')),
      facilitatorSettle =
        (\<lambda>h. Inr (Some \<lparr>success = True, error = None, txHash = Some example_settle_tx\<rparr>))\<rparr>"

text \<open>
  A chain whose token contract keeps the list of minted tokens and refuses the zero
  address, and whose wrapper prices every request at 1000 wei and answers with request 7;
  the contract deployed on it, and the contract after one \<open>requestNFT\<close>.
\<close>

definition example_chain :: "(uint256 \<times> address) list chain" where
  "example_chain =
     \<lparr>safeMint = (\<lambda>erc to tokenId.
                    if to = 0 then Inl (Revert ''ERC721: mint to the zero address'')
                    else Inr (erc @ [(tokenId, to)])),
      setTokenURI = (\<lambda>erc tokenId uri. Inr erc),
      toString = (\<lambda>n. ''0''),
      base64 = (\<lambda>bs. bs),
      calculateRequestPriceNative = (\<lambda>gas n. 1000),
      requestRandomWordsInNative = (\<lambda>gas conf n. Inr 7)\<rparr>"

definition example_deployed :: "(uint256 \<times> address) list VRFNFT" where
  "example_deployed = constructor [] 0 100000 3"

definition example_pending :: "(uint256 \<times> address) list VRFNFT" where
  "example_pending =
     (case requestNFT example_chain example_deployed 0xCAFE 10000000000000000 0xA11CE of
        Inl err \<Rightarrow> example_deployed
      | Inr (requestId, s) \<Rightarrow> s)"

definition example_fulfilled :: "(uint256 \<times> address) list VRFNFT" where
  "example_fulfilled =
     state_after (fulfillRandomWords example_chain example_pending 7 [6]) example_pending"

text \<open>The worlds of the example in which one outside call goes wrong.\<close>

definition verify_rejects_env :: env where
  "verify_rejects_env = example_env
     \<lparr>facilitatorVerify :=
        (\<lambda>h. Inr (Some \<lparr>isValid = False, invalidReason = Some ''insufficient_funds''\<rparr>))\<rparr>"

definition verify_throws_env :: env where
  "verify_throws_env = example_env
     \<lparr>facilitatorVerify := (\<lambda>h. Inl (Exn ''connect ECONNREFUSED 127.0.0.1:4020''))\<rparr>"

definition mint_throws_env :: env where
  "mint_throws_env = example_env
     \<lparr>writeContract := (\<lambda>r. Inl (Exn ''insufficient funds for gas * price + value''))\<rparr>"

definition settle_throws :: "string \<Rightarrow> exn + settlement option" where
  "settle_throws h = Inl (Exn ''Request failed with status code 500'')"

definition settle_fails :: "string \<Rightarrow> exn + settlement option" where
  "settle_fails h =
     Inr (Some \<lparr>success = False, error = Some ''invalid_nonce'', txHash = None\<rparr>)"

section \<open>The resource server: lemmas\<close>

lemma decode_ok_recipient:
  assumes "decode_payment_header e h = Inr ph"
  shows "\<exists>r. recipient_of ph = Inr r \<and> truthy r"
proof -
  from assms
  have t: "truthy (opt_chain (opt_chain (member_of ph ''payload'') ''authorization'') ''from'')"
    and np: "\<exists>x. get_prop ph ''scheme'' = Inr x"
    by (auto simp: decode_payment_header_def split: sum.splits if_splits)
  from np have ph: "ph \<noteq> JNull" "ph \<noteq> JUndefined" by auto
  let ?p = "member_of ph ''payload''"
  let ?a = "opt_chain ?p ''authorization''"
  from t have a: "?a \<noteq> JNull" "?a \<noteq> JUndefined" by auto
  then have p: "?p \<noteq> JNull" "?p \<noteq> JUndefined" by auto
  have 1: "get_prop ph ''payload'' = Inr ?p" using ph by (cases ph) auto
  have 2: "get_prop ?p ''authorization'' = Inr ?a" using p by (cases ?p) auto
  have 3: "get_prop ?a ''from'' = Inr (opt_chain ?a ''from'')" using a by (cases ?a) auto
  show ?thesis using t by (simp add: recipient_of_def 1 2 3)
qed




lemma settle_and_respond_status [simp]:
  "status (settle_and_respond e h tx cs ls) = 200"
  by (simp add: settle_and_respond_def Let_def split: sum.splits prod.splits)

lemma settle_and_respond_body [simp]:
  "body (settle_and_respond e h tx cs ls) =
     JObj [(''message'', JStr ''NFT mint request initiated successfully.''),
           (''nftMintTxHash'', JStr tx)]"
  by (simp add: settle_and_respond_def Let_def split: sum.splits prod.splits)

lemma settle_and_respond_calls [simp]:
  "calls (settle_and_respond e h tx cs ls) = cs @ [PostSettle h paymentDetailsRequired]"
  by (simp add: settle_and_respond_def Let_def split: sum.splits prod.splits)

lemma settle_and_respond_logs:
  "case facilitatorSettle e h of
     Inl err \<Rightarrow>
       ConsoleError ''ERROR ResourceServer: Error calling facilitator /settle:''
         \<in> set (logs (settle_and_respond e h tx cs ls))
   | Inr data \<Rightarrow>
       \<not> is_success data \<longrightarrow>
       ConsoleError ''WARN ResourceServer: Facilitator settlement failed:''
         \<in> set (logs (settle_and_respond e h tx cs ls))"
  by (simp add: settle_and_respond_def Let_def split: sum.splits prod.splits)

text \<open>The six ways a request ends.\<close>

lemma request_mint_cases:
  obtains
    (challenged) "hdr = None \<or> hdr = Some []"
      "status (request_mint e hdr) = 402" "calls (request_mint e hdr) = []"
  | (malformed) h err where "hdr = Some h" "h \<noteq> []" "decode_payment_header e h = Inl err"
      "status (request_mint e hdr) = 400" "calls (request_mint e hdr) = []"
  | (verify_threw) h ph err where "hdr = Some h" "h \<noteq> []"
      "decode_payment_header e h = Inr ph" "facilitatorVerify e h = Inl err"
      "status (request_mint e hdr) = 500"
      "body (request_mint e hdr) = JObj [(''error'', JStr ''Facilitator verification call failed.'')]"
      "calls (request_mint e hdr) = [PostVerify h paymentDetailsRequired]"
  | (rejected) h ph v where "hdr = Some h" "h \<noteq> []"
      "decode_payment_header e h = Inr ph" "facilitatorVerify e h = Inr v" "\<not> is_valid v"
      "status (request_mint e hdr) = 402"
      "calls (request_mint e hdr) = [PostVerify h paymentDetailsRequired]"
  | (mint_threw) h ph v r err where "hdr = Some h" "h \<noteq> []"
      "decode_payment_header e h = Inr ph" "facilitatorVerify e h = Inr v" "is_valid v"
      "recipient_of ph = Inr r" "writeContract e r = Inl err"
      "status (request_mint e hdr) = 500"
      "body (request_mint e hdr) =
         JObj [(''error'', JStr ''Failed to initiate NFT minting.''),
               (''details'', JStr (message err))]"
      "calls (request_mint e hdr) = [PostVerify h paymentDetailsRequired, WriteContract r]"
  | (minted) h ph v r tx where "hdr = Some h" "h \<noteq> []"
      "decode_payment_header e h = Inr ph" "facilitatorVerify e h = Inr v" "is_valid v"
      "recipient_of ph = Inr r" "writeContract e r = Inr tx"
      "\<exists>ls. request_mint e hdr =
         settle_and_respond e h tx [PostVerify h paymentDetailsRequired, WriteContract r] ls"
proof (cases "hdr = None \<or> hdr = Some []")
  case True
  then show ?thesis using challenged by (auto simp: request_mint_def Let_def)
next
  case False
  then obtain h where h: "hdr = Some h" "h \<noteq> []" by auto
  show ?thesis
  proof (cases "decode_payment_header e h")
    case (Inl err)
    then show ?thesis using malformed [of h err] h by (simp add: request_mint_def Let_def)
  next
    case (Inr ph)
    note ph = this
    from decode_ok_recipient [OF ph] obtain r where r: "recipient_of ph = Inr r" by blast
    have rm: "request_mint e (Some h) =
        verify_then_mint e h ph [ConsoleLog ''INFO ResourceServer: Received POST /request-mint'']"
      using h ph by (simp add: request_mint_def Let_def)
    show ?thesis
    proof (cases "facilitatorVerify e h")
      case (Inl err)
      then show ?thesis using verify_threw [of h ph err] h ph
        by (simp add: rm verify_then_mint_def Let_def)
    next
      case (Inr v)
      note v = this
      show ?thesis
      proof (cases "is_valid v")
        case False
        then show ?thesis using rejected [of h ph v] h ph v
          by (simp add: rm verify_then_mint_def Let_def)
      next
        case True
        show ?thesis
        proof (cases "writeContract e r")
          case (Inl err)
          then show ?thesis using mint_threw [of h ph v r err] h ph v True r
            by (simp add: rm verify_then_mint_def mint_and_settle_def Let_def)
        next
          case (Inr tx)
          have "\<exists>ls. request_mint e (Some h) =
              settle_and_respond e h tx [PostVerify h paymentDetailsRequired, WriteContract r] ls"
            using v True r Inr
            by (intro exI) (simp add: rm verify_then_mint_def mint_and_settle_def Let_def)
          then show ?thesis using minted [of h ph v r tx] h ph v True r Inr
            by simp
        qed
      qed
    qed
  qed
qed

text \<open>What the facilitator answers to \<open>/settle\<close> reaches neither the status, the body nor the calls.\<close>

lemma settle_irrelevant:
  "status (request_mint (e\<lparr>facilitatorSettle := f\<rparr>) hdr) = status (request_mint e hdr)"
  "body (request_mint (e\<lparr>facilitatorSettle := f\<rparr>) hdr) = body (request_mint e hdr)"
  "calls (request_mint (e\<lparr>facilitatorSettle := f\<rparr>) hdr) = calls (request_mint e hdr)"
  by (simp_all add: request_mint_def decode_payment_header_def verify_then_mint_def
      mint_and_settle_def Let_def split: sum.splits option.splits)

text \<open>The example worlds, evaluated.\<close>

lemma example_payer_not_empty [simp]: "example_payer \<noteq> []"
  by (simp add: example_payer_def)

lemmas example_defs =
  example_env_def example_header_base64_def other_scheme_base64_def
  unsigned_envelope_base64_def not_json_base64_def example_header_def
  other_scheme_header_def unsigned_envelope_def SCHEME_def NETWORK_ID_def

lemmas handler_defs =
  request_mint_def decode_payment_header_def verify_then_mint_def mint_and_settle_def
  recipient_of_def is_valid_def Let_def FACILITATOR_URL_def

lemma example_decodes:
  "decode_payment_header example_env example_header_base64 = Inr example_header"
  "recipient_of example_header = Inr (JStr example_payer)"
  by (simp_all add: handler_defs example_defs)

section \<open>The resource server: properties\<close>

text \<open>
  C1. The specification has the success body hold the mint transaction and the settlement
  receipt, \<open>{ message, nftMintTxHash, settlement }\<close>. The handler evaluated on the example
  header, the header text of a complete envelope whose payer is a 20-byte address, in the
  world where the facilitator answers \<open>/verify\<close> with \<open>isValid\<close> true, the mint transaction
  returns its hash and the facilitator answers \<open>/settle\<close> with success and a transaction
  hash: the answer is 200, the body is \<open>{ message, nftMintTxHash }\<close> and has no
  \<open>settlement\<close> property.
\<close>

theorem success_body_without_settlement:
  "decodeHeader example_env example_header_base64 = Inr example_header
   \<and> valid_envelope example_header
   \<and> member_of example_header ''scheme'' = JStr SCHEME
   \<and> member_of example_header ''networkId'' = JStr NETWORK_ID
   \<and> facilitatorVerify example_env example_header_base64
       = Inr (Some \<lparr>isValid = True, invalidReason = None\<rparr>)
   \<and> recipient_of example_header = Inr (JStr example_payer)
   \<and> writeContract example_env (JStr example_payer) = Inr example_mint_tx
   \<and> facilitatorSettle example_env example_header_base64
       = Inr (Some \<lparr>success = True, error = None, txHash = Some example_settle_tx\<rparr>)
   \<and> calls (request_mint example_env (Some example_header_base64))
       = [PostVerify example_header_base64 paymentDetailsRequired,
          WriteContract (JStr example_payer),
          PostSettle example_header_base64 paymentDetailsRequired]
   \<and> status (request_mint example_env (Some example_header_base64)) = 200
   \<and> body (request_mint example_env (Some example_header_base64)) =
       JObj [(''message'', JStr ''NFT mint request initiated successfully.''),
             (''nftMintTxHash'', JStr example_mint_tx)]
   \<and> member_of (body (request_mint example_env (Some example_header_base64))) ''settlement''
       = JUndefined"
  by (simp add: valid_envelope_def handler_defs example_defs
      example_payer_def example_signature_def)

text \<open>
  C2. A request that posts to \<open>/settle\<close> carries its payload in the header, the facilitator
  has answered \<open>/verify\<close> for that payload with \<open>isValid\<close> true, and the calls of the request
  are the post to \<open>/verify\<close>, the mint transaction and the post to \<open>/settle\<close>, in this order.
  A request whose post to \<open>/verify\<close> is answered with an invalid result is answered 402 and
  posts nothing to \<open>/settle\<close>.
\<close>

theorem settle_only_after_valid_verify:
  "(PostSettle p d \<in> set (calls (request_mint e hdr)) \<longrightarrow>
      hdr = Some p
      \<and> (\<exists>v. facilitatorVerify e p = Inr v \<and> is_valid v)
      \<and> (\<exists>r. calls (request_mint e hdr) = [PostVerify p d, WriteContract r, PostSettle p d]))
   \<and> (PostVerify p d \<in> set (calls (request_mint e hdr))
       \<and> (\<exists>v. facilitatorVerify e p = Inr v \<and> \<not> is_valid v) \<longrightarrow>
      status (request_mint e hdr) = 402
      \<and> (\<forall>p' d'. PostSettle p' d' \<notin> set (calls (request_mint e hdr))))"
  by (cases e hdr rule: request_mint_cases) auto

text \<open>
  C2, witness: the example request that is verified, minted and settled, and the same
  request in the world whose facilitator rejects the payment.
\<close>

theorem settle_only_after_valid_verify_witness:
  "PostSettle example_header_base64 paymentDetailsRequired
     \<in> set (calls (request_mint example_env (Some example_header_base64)))
   \<and> facilitatorVerify example_env example_header_base64
       = Inr (Some \<lparr>isValid = True, invalidReason = None\<rparr>)
   \<and> calls (request_mint example_env (Some example_header_base64)) =
       [PostVerify example_header_base64 paymentDetailsRequired,
        WriteContract (JStr example_payer),
        PostSettle example_header_base64 paymentDetailsRequired]
   \<and> PostVerify example_header_base64 paymentDetailsRequired
       \<in> set (calls (request_mint verify_rejects_env (Some example_header_base64)))
   \<and> facilitatorVerify verify_rejects_env example_header_base64
       = Inr (Some \<lparr>isValid = False, invalidReason = Some ''insufficient_funds''\<rparr>)
   \<and> status (request_mint verify_rejects_env (Some example_header_base64)) = 402
   \<and> PostSettle example_header_base64 paymentDetailsRequired
       \<notin> set (calls (request_mint verify_rejects_env (Some example_header_base64)))"
proof -
  have a: "PostSettle example_header_base64 paymentDetailsRequired
      \<in> set (calls (request_mint example_env (Some example_header_base64)))"
    by (simp add: handler_defs example_defs)
  have b: "PostVerify example_header_base64 paymentDetailsRequired
      \<in> set (calls (request_mint verify_rejects_env (Some example_header_base64)))
      \<and> (\<exists>v. facilitatorVerify verify_rejects_env example_header_base64 = Inr v \<and> \<not> is_valid v)"
    by (simp add: handler_defs example_defs verify_rejects_env_def)
  have v1: "facilitatorVerify example_env example_header_base64
       = Inr (Some \<lparr>isValid = True, invalidReason = None\<rparr>)"
    by (simp add: example_env_def)
  have v2: "facilitatorVerify verify_rejects_env example_header_base64
       = Inr (Some \<lparr>isValid = False, invalidReason = Some ''insufficient_funds''\<rparr>)"
    by (simp add: example_env_def verify_rejects_env_def)
  from settle_only_after_valid_verify
    [of example_header_base64 paymentDetailsRequired example_env "Some example_header_base64"] a
  obtain r where c: "calls (request_mint example_env (Some example_header_base64)) =
       [PostVerify example_header_base64 paymentDetailsRequired,
        WriteContract r,
        PostSettle example_header_base64 paymentDetailsRequired]" by blast
  have "WriteContract (JStr example_payer) \<in> set (calls (request_mint example_env (Some example_header_base64)))"
    by (simp add: handler_defs example_defs)
  with c have r: "r = JStr example_payer" by simp
  from settle_only_after_valid_verify
    [of example_header_base64 paymentDetailsRequired verify_rejects_env "Some example_header_base64"] b
  have d: "status (request_mint verify_rejects_env (Some example_header_base64)) = 402
     \<and> (\<forall>p' d'. PostSettle p' d' \<notin> set (calls (request_mint verify_rejects_env (Some example_header_base64))))"
    by blast
  show ?thesis using a b c d r v1 v2 by simp
qed

text \<open>
  C3. A request whose mint transaction is sent and throws is answered 500, with the body
  \<open>{ error: 'Failed to initiate NFT minting.', details }\<close>, and posts nothing to \<open>/settle\<close>.
\<close>

theorem trigger_failure_not_settled:
  "WriteContract r \<in> set (calls (request_mint e hdr)) \<Longrightarrow> writeContract e r = Inl err \<Longrightarrow>
     status (request_mint e hdr) = 500
     \<and> body (request_mint e hdr) =
         JObj [(''error'', JStr ''Failed to initiate NFT minting.''),
               (''details'', JStr (message err))]
     \<and> (\<forall>p d. PostSettle p d \<notin> set (calls (request_mint e hdr)))"
  by (cases e hdr rule: request_mint_cases) auto

text \<open>C3, witness: the example request in the world whose chain refuses the mint.\<close>

theorem trigger_failure_not_settled_witness:
  "WriteContract (JStr example_payer)
     \<in> set (calls (request_mint mint_throws_env (Some example_header_base64)))
   \<and> writeContract mint_throws_env (JStr example_payer)
       = Inl (Exn ''insufficient funds for gas * price + value'')
   \<and> status (request_mint mint_throws_env (Some example_header_base64)) = 500
   \<and> PostSettle example_header_base64 paymentDetailsRequired
       \<notin> set (calls (request_mint mint_throws_env (Some example_header_base64)))"
proof -
  have a: "WriteContract (JStr example_payer)
      \<in> set (calls (request_mint mint_throws_env (Some example_header_base64)))"
    by (simp add: handler_defs example_defs mint_throws_env_def)
  have b: "writeContract mint_throws_env (JStr example_payer)
       = Inl (Exn ''insufficient funds for gas * price + value'')"
    by (simp add: example_env_def mint_throws_env_def)
  from trigger_failure_not_settled [OF a b] a b show ?thesis by blast
qed

text \<open>
  C10. A request whose post to \<open>/verify\<close> throws is answered 500, not 402, with the body
  \<open>{ error: 'Facilitator verification call failed.' }\<close>; the post to \<open>/verify\<close> is its only
  call: no mint transaction, no post to \<open>/settle\<close>.
\<close>

theorem verify_transport_failure:
  "PostVerify p d \<in> set (calls (request_mint e hdr)) \<Longrightarrow> facilitatorVerify e p = Inl err \<Longrightarrow>
     status (request_mint e hdr) = 500
     \<and> status (request_mint e hdr) \<noteq> 402
     \<and> body (request_mint e hdr) = JObj [(''error'', JStr ''Facilitator verification call failed.'')]
     \<and> calls (request_mint e hdr) = [PostVerify p d]"
  by (cases e hdr rule: request_mint_cases) auto

text \<open>C10, witness: the example request in the world whose facilitator is unreachable.\<close>

theorem verify_transport_failure_witness:
  "PostVerify example_header_base64 paymentDetailsRequired
     \<in> set (calls (request_mint verify_throws_env (Some example_header_base64)))
   \<and> facilitatorVerify verify_throws_env example_header_base64
       = Inl (Exn ''connect ECONNREFUSED 127.0.0.1:4020'')
   \<and> status (request_mint verify_throws_env (Some example_header_base64)) = 500
   \<and> body (request_mint verify_throws_env (Some example_header_base64))
       = JObj [(''error'', JStr ''Facilitator verification call failed.'')]
   \<and> calls (request_mint verify_throws_env (Some example_header_base64))
       = [PostVerify example_header_base64 paymentDetailsRequired]"
proof -
  have a: "PostVerify example_header_base64 paymentDetailsRequired
      \<in> set (calls (request_mint verify_throws_env (Some example_header_base64)))"
    by (simp add: handler_defs example_defs verify_throws_env_def)
  have b: "facilitatorVerify verify_throws_env example_header_base64
       = Inl (Exn ''connect ECONNREFUSED 127.0.0.1:4020'')"
    by (simp add: example_env_def verify_throws_env_def)
  from verify_transport_failure [OF a b] a b show ?thesis by blast
qed




text \<open>
  C6. A request without the X-PAYMENT header is answered 402 with the body
  \<open>{ paymentDetails, error }\<close>, whose \<open>paymentDetails\<close> is the declared configuration
  \<open>paymentDetailsRequired\<close>, whatever the world outside would answer; it calls nothing
  outside.
\<close>

theorem no_header_challenged:
  "status (request_mint e None) = 402
   \<and> body (request_mint e None) =
       JObj [(''paymentDetails'', paymentDetailsRequired), (''error'', JStr ''Payment required'')]
   \<and> member_of (body (request_mint e None)) ''paymentDetails'' = paymentDetailsRequired
   \<and> calls (request_mint e None) = []"
  by (simp add: request_mint_def Let_def)

text \<open>C6, witness: the same answer in two different worlds.\<close>

theorem no_header_challenged_witness:
  "status (request_mint example_env None) = 402
   \<and> status (request_mint mint_throws_env None) = 402
   \<and> body (request_mint example_env None) = body (request_mint mint_throws_env None)
   \<and> member_of (body (request_mint example_env None)) ''paymentDetails'' = paymentDetailsRequired"
  using no_header_challenged [of example_env] no_header_challenged [of mint_throws_env]
  by simp

text \<open>
  C9. A request whose mint transaction is sent and returns a hash is answered 200 with the
  body \<open>{ message, nftMintTxHash }\<close>, whatever \<open>f\<close> the post to \<open>/settle\<close> does: an exception
  and a failure result each leave an error line in the log and nothing in the response.
\<close>

theorem settlement_outcome_only_logged:
  assumes "WriteContract r \<in> set (calls (request_mint e (Some h)))"
    and "writeContract e r = Inr tx"
  shows "status (request_mint (e\<lparr>facilitatorSettle := f\<rparr>) (Some h)) = 200
     \<and> body (request_mint (e\<lparr>facilitatorSettle := f\<rparr>) (Some h)) =
         JObj [(''message'', JStr ''NFT mint request initiated successfully.''),
               (''nftMintTxHash'', JStr tx)]
     \<and> (case f h of
          Inl err \<Rightarrow>
            ConsoleError ''ERROR ResourceServer: Error calling facilitator /settle:''
              \<in> set (logs (request_mint (e\<lparr>facilitatorSettle := f\<rparr>) (Some h)))
        | Inr data \<Rightarrow>
            \<not> is_success data \<longrightarrow>
            ConsoleError ''WARN ResourceServer: Facilitator settlement failed:''
              \<in> set (logs (request_mint (e\<lparr>facilitatorSettle := f\<rparr>) (Some h))))"
proof -
  let ?e = "e\<lparr>facilitatorSettle := f\<rparr>"
  have c: "WriteContract r \<in> set (calls (request_mint ?e (Some h)))"
    using assms(1) by (simp add: settle_irrelevant)
  have w: "writeContract ?e r = Inr tx" using assms(2) by simp
  show ?thesis
  proof (cases ?e "Some h" rule: request_mint_cases)
    case (minted h' ph v r' tx')
    with c w have eq: "h' = h" "r' = r" "tx' = tx" by auto
    from minted(8) obtain ls where rm: "request_mint ?e (Some h) =
        settle_and_respond ?e h tx [PostVerify h paymentDetailsRequired, WriteContract r] ls"
      unfolding eq by blast
    show ?thesis
      unfolding rm using settle_and_respond_logs [of ?e h tx]
      by (simp split: sum.splits)
  qed (use c w in auto)
qed

text \<open>
  C9, witness: the example request with a facilitator that throws on \<open>/settle\<close> and with
  one that reports a failed settlement.
\<close>

theorem settlement_outcome_only_logged_witness:
  "WriteContract (JStr example_payer) \<in> set (calls (request_mint example_env (Some example_header_base64)))
   \<and> writeContract example_env (JStr example_payer) = Inr example_mint_tx
   \<and> status (request_mint (example_env\<lparr>facilitatorSettle := settle_throws\<rparr>) (Some example_header_base64)) = 200
   \<and> status (request_mint (example_env\<lparr>facilitatorSettle := settle_fails\<rparr>) (Some example_header_base64)) = 200
   \<and> body (request_mint (example_env\<lparr>facilitatorSettle := settle_throws\<rparr>) (Some example_header_base64))
       = body (request_mint (example_env\<lparr>facilitatorSettle := settle_fails\<rparr>) (Some example_header_base64))
   \<and> ConsoleError ''ERROR ResourceServer: Error calling facilitator /settle:''
       \<in> set (logs (request_mint (example_env\<lparr>facilitatorSettle := settle_throws\<rparr>) (Some example_header_base64)))
   \<and> ConsoleError ''WARN ResourceServer: Facilitator settlement failed:''
       \<in> set (logs (request_mint (example_env\<lparr>facilitatorSettle := settle_fails\<rparr>) (Some example_header_base64)))"
proof -
  have a: "WriteContract (JStr example_payer)
      \<in> set (calls (request_mint example_env (Some example_header_base64)))"
    by (simp add: handler_defs example_defs)
  have b: "writeContract example_env (JStr example_payer) = Inr example_mint_tx"
    by (simp add: example_env_def)
  from settlement_outcome_only_logged [OF a b, of settle_throws]
       settlement_outcome_only_logged [OF a b, of settle_fails] a b
  show ?thesis by (simp add: settle_throws_def settle_fails_def is_success_def)
qed

section \<open>The contract: lemmas and properties\<close>

lemma character_count [simp]: "length s_characterNames = 4" "length s_characterImages = 4"
  by (simp_all add: s_characterNames_def s_characterImages_def)

text \<open>What a successful callback did, read off the definition.\<close>

lemma fulfillRandomWords_success:
  assumes "fulfillRandomWords c s requestId ws = Inr s'"
  shows "exists (s_requests s requestId)"
    and "\<not> fulfilled (s_requests s requestId)"
    and "ws \<noteq> []"
    and "s_requestIdToRecipient s requestId \<noteq> 0"
    and "s_requests s' = (s_requests s)
           (requestId := (s_requests s requestId)\<lparr>fulfilled := True, randomWords := ws\<rparr>)"
    and "tokenIdCounter s' = tokenIdCounter s + 1"
    and "s_tokenIdToCharacterIndex s' =
           (s_tokenIdToCharacterIndex s)(tokenIdCounter s := (ws ! 0) mod 4)"
    and "s_requestIdToRecipient s' = (s_requestIdToRecipient s)(requestId := 0)"
    and "events s' = events s @
           [RequestFulfilled requestId ws,
            NFTMinted requestId (s_requestIdToRecipient s requestId) (tokenIdCounter s)
              ((ws ! 0) mod 4)]"
  using assms
  by (auto simp: fulfillRandomWords_def Let_def split: if_splits sum.splits)

lemma fulfillRandomWords_unknown:
  "\<not> exists (s_requests s requestId) \<Longrightarrow>
     fulfillRandomWords c s requestId ws = Inl (Revert ''Request not found'')"
  by (simp add: fulfillRandomWords_def)

lemma fulfillRandomWords_duplicate:
  "exists (s_requests s requestId) \<Longrightarrow> fulfilled (s_requests s requestId) \<Longrightarrow>
     fulfillRandomWords c s requestId ws = Inl (Revert ''Request already fulfilled'')"
  by (simp add: fulfillRandomWords_def)

lemma fulfilled_never_succeeds:
  "fulfilled (s_requests s requestId) \<Longrightarrow> \<exists>err. fulfillRandomWords c s requestId ws = Inl err"
  by (cases "fulfillRandomWords c s requestId ws") (auto dest: fulfillRandomWords_success(2))

lemma fulfilled_then_duplicate:
  assumes "fulfillRandomWords c s requestId ws = Inr s'"
  shows "fulfilled (s_requests s' requestId)"
    and "fulfillRandomWords c s' requestId ws' = Inl (Revert ''Request already fulfilled'')"
proof -
  from fulfillRandomWords_success(1,5) [OF assms]
  show f: "fulfilled (s_requests s' requestId)" by simp
  from fulfillRandomWords_success(1,5) [OF assms]
  have "exists (s_requests s' requestId)" by simp
  then show "fulfillRandomWords c s' requestId ws' = Inl (Revert ''Request already fulfilled'')"
    using f by (rule fulfillRandomWords_duplicate)
qed

text \<open>The example contract, evaluated.\<close>

lemma example_pending_eq:
  "example_pending = example_deployed
     \<lparr>s_requests := (s_requests example_deployed)
        (7 := \<lparr>fulfilled = False, exists = True, randomWords = []\<rparr>),
      s_requestIdToRecipient := (s_requestIdToRecipient example_deployed)(7 := 0xA11CE),
      events := [RequestSent 7 0xCAFE 1000]\<rparr>"
  by (simp add: example_pending_def requestNFT_def example_chain_def example_deployed_def
      constructor_def NUM_WORDS_def MINT_PRICE_def)

lemma example_pending_facts:
  "exists (s_requests example_pending 7)"
  "\<not> fulfilled (s_requests example_pending 7)"
  "\<not> exists (s_requests example_pending 8)"
  "s_requestIdToRecipient example_pending 7 = 0xA11CE"
  "tokenIdCounter example_pending = 0"
  "\<not> exists (s_requests example_deployed 1)"
  by (simp_all add: example_pending_eq example_deployed_def constructor_def)

lemma example_fulfilled_ok:
  "fulfillRandomWords example_chain example_pending 7 [6] = Inr example_fulfilled"
proof -
  have "\<exists>s'. fulfillRandomWords example_chain example_pending 7 [6] = Inr s'"
    by (simp add: fulfillRandomWords_def example_pending_facts example_chain_def Let_def)
  then show ?thesis by (auto simp: example_fulfilled_def state_after_def)
qed

text \<open>
  C4, amended. A callback for a request identifier with no recorded request reverts with
  the reason \<open>Request not found\<close>; the state after it is the state before it.
\<close>

theorem unknown_request_reverts:
  "\<not> exists (s_requests s requestId) \<Longrightarrow>
     fulfillRandomWords c s requestId ws = Inl (Revert ''Request not found'')
     \<and> state_after (fulfillRandomWords c s requestId ws) s = s"
  by (simp add: fulfillRandomWords_unknown state_after_def)

text \<open>C4, witness: request 8 on the contract that has recorded request 7 only.\<close>

theorem unknown_request_reverts_witness:
  "\<not> exists (s_requests example_pending 8)
   \<and> fulfillRandomWords example_chain example_pending 8 [6] = Inl (Revert ''Request not found'')
   \<and> state_after (fulfillRandomWords example_chain example_pending 8 [6]) example_pending
       = example_pending"
proof -
  have a: "\<not> exists (s_requests example_pending 8)" by (rule example_pending_facts)
  from unknown_request_reverts [OF a, of example_chain "[6]"] a show ?thesis by blast
qed

text \<open>
  C4, counterexample to the property as the specification states it (the callback for an
  unknown request raises no error): on the freshly deployed contract the callback for
  request 1 ends in a revert.
\<close>

theorem unknown_request_raises:
  "\<not> exists (s_requests example_deployed 1)
   \<and> fulfillRandomWords example_chain example_deployed 1 [6] = Inl (Revert ''Request not found'')"
  by (simp add: fulfillRandomWords_def example_pending_facts)

text \<open>
  C5. A callback for a request that already has \<open>fulfilled = true\<close> is rejected and leaves
  the state as it was; after a successful callback the request is fulfilled and every
  further callback for it, with any words, is rejected with \<open>Request already fulfilled\<close> and
  changes nothing; so the state after delivering the same callback twice is the state
  after delivering it once.
\<close>

theorem duplicate_fulfillment_ignored:
  "(fulfilled (s_requests s requestId) \<longrightarrow>
      (\<exists>err. fulfillRandomWords c s requestId ws = Inl err)
      \<and> state_after (fulfillRandomWords c s requestId ws) s = s)
   \<and> (\<forall>s'. fulfillRandomWords c s requestId ws = Inr s' \<longrightarrow>
        fulfilled (s_requests s' requestId)
        \<and> fulfillRandomWords c s' requestId ws' = Inl (Revert ''Request already fulfilled'')
        \<and> state_after (fulfillRandomWords c s' requestId ws') s' = s')
   \<and> state_after (fulfillRandomWords c (state_after (fulfillRandomWords c s requestId ws) s) requestId ws)
        (state_after (fulfillRandomWords c s requestId ws) s)
      = state_after (fulfillRandomWords c s requestId ws) s"
proof (intro conjI impI allI)
  assume f: "fulfilled (s_requests s requestId)"
  from fulfilled_never_succeeds [OF f]
  show "\<exists>err. fulfillRandomWords c s requestId ws = Inl err" .
  then show "state_after (fulfillRandomWords c s requestId ws) s = s"
    by (auto simp: state_after_def)
next
  fix s' assume ok: "fulfillRandomWords c s requestId ws = Inr s'"
  from fulfilled_then_duplicate [OF ok]
  show "fulfilled (s_requests s' requestId)"
    and d: "fulfillRandomWords c s' requestId ws' = Inl (Revert ''Request already fulfilled'')"
    by simp_all
  from d show "state_after (fulfillRandomWords c s' requestId ws') s' = s'"
    by (simp add: state_after_def)
next
  show "state_after (fulfillRandomWords c (state_after (fulfillRandomWords c s requestId ws) s) requestId ws)
        (state_after (fulfillRandomWords c s requestId ws) s)
      = state_after (fulfillRandomWords c s requestId ws) s"
  proof (cases "fulfillRandomWords c s requestId ws")
    case (Inl err)
    then show ?thesis by (simp add: state_after_def)
  next
    case (Inr s')
    with fulfilled_then_duplicate(2) [OF Inr, of ws] show ?thesis
      by (simp add: state_after_def)
  qed
qed

text \<open>
  C5, witness: request 7 fulfilled with the word 6, then delivered again with 9 and with 6.
\<close>

theorem duplicate_fulfillment_ignored_witness:
  "fulfillRandomWords example_chain example_pending 7 [6] = Inr example_fulfilled
   \<and> fulfilled (s_requests example_fulfilled 7)
   \<and> fulfillRandomWords example_chain example_fulfilled 7 [9]
       = Inl (Revert ''Request already fulfilled'')
   \<and> state_after (fulfillRandomWords example_chain example_fulfilled 7 [9]) example_fulfilled
       = example_fulfilled
   \<and> state_after (fulfillRandomWords example_chain example_fulfilled 7 [6]) example_fulfilled
       = example_fulfilled"
proof -
  have a: "fulfillRandomWords example_chain example_pending 7 [6] = Inr example_fulfilled"
    by (rule example_fulfilled_ok)
  from duplicate_fulfillment_ignored [of example_pending 7 example_chain "[6]" "[9]"] a
  have b: "fulfilled (s_requests example_fulfilled 7)
      \<and> fulfillRandomWords example_chain example_fulfilled 7 [9]
          = Inl (Revert ''Request already fulfilled'')
      \<and> state_after (fulfillRandomWords example_chain example_fulfilled 7 [9]) example_fulfilled
          = example_fulfilled"
    by blast
  then have f: "fulfilled (s_requests example_fulfilled 7)" by blast
  from duplicate_fulfillment_ignored [of example_fulfilled 7 example_chain "[6]" "[9]"] f
  have "state_after (fulfillRandomWords example_chain example_fulfilled 7 [6]) example_fulfilled
       = example_fulfilled"
    by blast
  with a b show ?thesis by blast
qed

text \<open>
  C8. After a successful callback the character index stored for the new token, and
  reported in \<open>NFTMinted\<close>, is the first random word modulo the number of characters,
  which is 4; it depends on nothing else.
\<close>

theorem character_index_is_word_mod_count:
  "fulfillRandomWords c s requestId ws = Inr s' \<Longrightarrow>
     ws \<noteq> []
     \<and> of_nat (length s_characterNames) = (4 :: uint256)
     \<and> s_tokenIdToCharacterIndex s' (tokenIdCounter s) = (ws ! 0) mod of_nat (length s_characterNames)
     \<and> unat (s_tokenIdToCharacterIndex s' (tokenIdCounter s)) = unat (ws ! 0) mod 4
     \<and> last (events s') =
         NFTMinted requestId (s_requestIdToRecipient s requestId) (tokenIdCounter s)
           ((ws ! 0) mod of_nat (length s_characterNames))"
  by (simp add: fulfillRandomWords_success unat_mod_distrib)

text \<open>C8, witness: request 7 fulfilled with the word 6 selects character 2.\<close>

theorem character_index_is_word_mod_count_witness:
  "fulfillRandomWords example_chain example_pending 7 [6] = Inr example_fulfilled
   \<and> s_tokenIdToCharacterIndex example_fulfilled 0 = 2
   \<and> last (events example_fulfilled) = NFTMinted 7 0xA11CE 0 2"
proof -
  have a: "fulfillRandomWords example_chain example_pending 7 [6] = Inr example_fulfilled"
    by (rule example_fulfilled_ok)
  from character_index_is_word_mod_count [OF a] a show ?thesis
    by (simp add: example_pending_facts)
qed

end
